theory Spec2Isabelle
  imports Complex_Main "HOL-Library.Char_ord" "HOL-Library.List_Lexorder" "HOL-Library.Multiset"
begin

section \<open>Exceptions and dense arrays\<close>

text \<open>
  Every \<^verbatim>\<open>raise\<close> and failing \<^verbatim>\<open>assert\<close> of \<^verbatim>\<open>roms_tools.py\<close> and \<^verbatim>\<open>Dataset.py\<close> is a
  value of \<open>error\<close>; a function that can fail returns \<open>error + 'a\<close>.
  \<open>ValueError\<close>, \<open>PyException\<close>, \<open>Warning\<close>, \<open>AssertionError\<close> and \<open>TypeError\<close> are raised by the
  source's own statements. \<open>IndexError\<close>, \<open>KeyError\<close> and \<open>ZeroDivisionError\<close> come from Python's
  indexing and float division, \<open>NumpyError\<close> from inside a numpy call (an axis out of range,
  a reshape that cannot infer a length, a reduction of an empty array, shapes that do not
  broadcast). \<open>Warning\<close> carries the three numbers the source formats into its message.
\<close>

datatype error =
    ValueError string
  | PyException string
  | Warning real real real
  | AssertionError string
  | TypeError
  | IndexError
  | KeyError
  | ZeroDivisionError
  | NumpyError string

definition err_bind :: "error + 'a \<Rightarrow> ('a \<Rightarrow> error + 'b) \<Rightarrow> error + 'b" where
  "err_bind m f = (case m of Inl e \<Rightarrow> Inl e | Inr x \<Rightarrow> f x)"

text \<open>
  A numpy array is its shape and its elements, read by index tuple. Elements are real
  numbers: the model computes in exact arithmetic where numpy computes in IEEE doubles.
  Only the indices inside the shape are elements of the array.
\<close>

record ndarray =
  shape :: "nat list"
  elem :: "nat list \<Rightarrow> real"

definition ndim :: "ndarray \<Rightarrow> nat" where
  "ndim a = length (shape a)"

definition valid_index :: "nat list \<Rightarrow> nat list \<Rightarrow> bool" where
  "valid_index s idx = list_all2 (\<lambda>i d. i < d) idx s"

text \<open>\<^verbatim>\<open>b[i]\<close> on a tuple, with Python's negative indices.\<close>

definition py_index :: "'a list \<Rightarrow> int \<Rightarrow> error + 'a" where
  "py_index xs i =
     (if 0 \<le> i \<and> i < int (length xs) then Inr (xs ! nat i)
      else if - int (length xs) \<le> i \<and> i < 0 then Inr (xs ! nat (int (length xs) + i))
      else Inl IndexError)"

text \<open>\<^verbatim>\<open>range(lo, 0)\<close> for \<open>lo = -r\<close>: the negative axis numbers \<open>-r, ..., -1\<close>.\<close>

definition neg_range :: "nat \<Rightarrow> int list" where
  "neg_range r = map (\<lambda>k. int k - int r) [0..<r]"

definition norm_axis :: "nat \<Rightarrow> int \<Rightarrow> error + nat" where
  "norm_axis n ax =
     (if - int n \<le> ax \<and> ax < int n then Inr (nat (if ax < 0 then ax + int n else ax))
      else Inl (NumpyError ''bad axis argument to swapaxes''))"

definition swap_at :: "nat \<Rightarrow> nat \<Rightarrow> 'a list \<Rightarrow> 'a list" where
  "swap_at i j xs = (if i < length xs \<and> j < length xs then xs[i := xs ! j, j := xs ! i] else xs)"

text \<open>\<^verbatim>\<open>a.swapaxes(ax1, ax2)\<close>: element \<open>idx\<close> of the result is element \<open>swap idx\<close> of \<open>a\<close>.\<close>

definition swapaxes :: "ndarray \<Rightarrow> int \<Rightarrow> int \<Rightarrow> error + ndarray" where
  "swapaxes a ax1 ax2 =
     err_bind (norm_axis (ndim a) ax1) (\<lambda>i.
     err_bind (norm_axis (ndim a) ax2) (\<lambda>j.
       Inr \<lparr>shape = swap_at i j (shape a), elem = (\<lambda>idx. elem a (swap_at i j idx))\<rparr>))"

text \<open>
  Slices along the first axis. Every call site has already read \<^verbatim>\<open>a.shape[0]\<close> (the loops
  of \<open>shrink\<close>) or checked the rank (\<open>isoslice\<close>), so the slices are applied to arrays of rank
  at least one only; on a rank-0 array they are the identity here.
\<close>

definition dim0 :: "ndarray \<Rightarrow> nat" where
  "dim0 a = (case shape a of [] \<Rightarrow> 0 | n # ds \<Rightarrow> n)"

definition shift0 :: "(nat list \<Rightarrow> real) \<Rightarrow> nat list \<Rightarrow> real" where
  "shift0 f idx = (case idx of [] \<Rightarrow> f [] | i # rest \<Rightarrow> f (Suc i # rest))"

definition tail0 :: "ndarray \<Rightarrow> ndarray" where  \<comment> \<open>\<^verbatim>\<open>a[1:]\<close>, \<^verbatim>\<open>a[1:,:]\<close>\<close>
  "tail0 a = (case shape a of [] \<Rightarrow> a
              | n # ds \<Rightarrow> \<lparr>shape = (n - 1) # ds, elem = shift0 (elem a)\<rparr>)"

definition init0 :: "ndarray \<Rightarrow> ndarray" where  \<comment> \<open>\<^verbatim>\<open>a[:-1]\<close>, \<^verbatim>\<open>a[:-1,:]\<close>\<close>
  "init0 a = (case shape a of [] \<Rightarrow> a
              | n # ds \<Rightarrow> \<lparr>shape = (n - 1) # ds, elem = elem a\<rparr>)"

definition trim0 :: "ndarray \<Rightarrow> ndarray" where  \<comment> \<open>\<^verbatim>\<open>a[1:-1]\<close>, \<^verbatim>\<open>a[1:-1,:]\<close>\<close>
  "trim0 a = (case shape a of [] \<Rightarrow> a
              | n # ds \<Rightarrow> \<lparr>shape = (n - 2) # ds, elem = shift0 (elem a)\<rparr>)"

text \<open>
  Elementwise operations of two arrays of one shape (the operands of \<open>shrink\<close> and \<open>isoslice\<close>
  are slices of equal shape, so nothing is broadcast) and of an array and a scalar.
\<close>

definition nd_map2 :: "(real \<Rightarrow> real \<Rightarrow> real) \<Rightarrow> ndarray \<Rightarrow> ndarray \<Rightarrow> ndarray" where
  "nd_map2 f x y = \<lparr>shape = shape x, elem = (\<lambda>idx. f (elem x idx) (elem y idx))\<rparr>"

definition nd_map :: "(real \<Rightarrow> real) \<Rightarrow> ndarray \<Rightarrow> ndarray" where
  "nd_map f x = \<lparr>shape = shape x, elem = (\<lambda>idx. f (elem x idx))\<rparr>"

definition avg0 :: "ndarray \<Rightarrow> ndarray" where  \<comment> \<open>\<^verbatim>\<open>0.5*(a[1:] + a[:-1])\<close>\<close>
  "avg0 a = nd_map (\<lambda>v. 0.5 * v) (nd_map2 (+) (tail0 a) (init0 a))"

text \<open>A 1-D array from a list, and back.\<close>

definition array1 :: "real list \<Rightarrow> ndarray" where
  "array1 xs = \<lparr>shape = [length xs],
                elem = (\<lambda>idx. case idx of [i] \<Rightarrow> (if i < length xs then xs ! i else 0) | _ \<Rightarrow> 0)\<rparr>"

definition to_list1 :: "ndarray \<Rightarrow> real list" where
  "to_list1 a = map (\<lambda>i. elem a [i]) [0..<dim0 a]"

section \<open>shrink\<close>

text \<open>
  The 1-D special case of \<open>shrink\<close>:
  \<^verbatim>\<open>while a.shape[0] > dim:
      if (dim - a.shape[0]) >= 2: a = a[1:-1]
      else: a = 0.5*(a[1:] + a[:-1])\<close>
  The subtraction is on Python ints, so it is taken in \<open>int\<close>.
\<close>

function shrink_while1 :: "ndarray \<Rightarrow> nat \<Rightarrow> error + ndarray" where
  "shrink_while1 a dm =
     (case shape a of
        [] \<Rightarrow> Inl IndexError
      | n # ds \<Rightarrow>
          if n > dm then
            (if int dm - int n \<ge> 2 then shrink_while1 (trim0 a) dm
             else shrink_while1 (avg0 a) dm)
          else Inr a)"
  by pat_completeness auto
termination
  by (relation "measure (\<lambda>(a, dm). dim0 a)")
     (auto simp: dim0_def avg0_def nd_map_def nd_map2_def tail0_def)

text \<open>
  The body of the loop of the general case:
  \<^verbatim>\<open>if (a.shape[0] - dim) >= 2: a = a[1:-1,:]
  if (a.shape[0] - dim) == 1: a = 0.5*(a[1:,:] + a[:-1,:])\<close>
  Both tests are made in every iteration, the second on the array the first may have trimmed.
\<close>

definition shrink_step :: "ndarray \<Rightarrow> nat \<Rightarrow> ndarray" where
  "shrink_step a dm =
     (let a1 = (if int (dim0 a) - int dm \<ge> 2 then trim0 a else a)
      in if int (dim0 a1) - int dm = 1 then avg0 a1 else a1)"

function shrink_while :: "ndarray \<Rightarrow> nat \<Rightarrow> error + ndarray" where
  "shrink_while a dm =
     (case shape a of
        [] \<Rightarrow> Inl IndexError
      | n # ds \<Rightarrow> if n > dm then shrink_while (shrink_step a dm) dm else Inr a)"
  by pat_completeness auto
termination
  by (relation "measure (\<lambda>(a, dm). dim0 a)")
     (auto simp: dim0_def shrink_step_def Let_def avg0_def nd_map_def nd_map2_def tail0_def trim0_def)

text \<open>One pass of \<^verbatim>\<open>for dim_idx in range(-(len(a.shape)),0)\<close>.\<close>

definition shrink_axis :: "nat list \<Rightarrow> ndarray \<Rightarrow> int \<Rightarrow> error + ndarray" where
  "shrink_axis b a dim_idx =
     err_bind (py_index b dim_idx) (\<lambda>dm.
     err_bind (swapaxes a 0 dim_idx) (\<lambda>a1.
     err_bind (shrink_while a1 dm) (\<lambda>a2.
       swapaxes a2 0 dim_idx)))"

fun shrink_axes :: "nat list \<Rightarrow> ndarray \<Rightarrow> int list \<Rightarrow> error + ndarray" where
  "shrink_axes b a [] = Inr a"
| "shrink_axes b a (i # rest) = err_bind (shrink_axis b a i) (\<lambda>a'. shrink_axes b a' rest)"

text \<open>\<open>shrink\<close> once its second argument is a tuple of sizes.\<close>

definition shrink_shape :: "ndarray \<Rightarrow> nat list \<Rightarrow> error + ndarray" where
  "shrink_shape a b =
     (if ndim a = 1 then err_bind (py_index b (- 1)) (\<lambda>dm. shrink_while1 a dm)
      else shrink_axes b a (neg_range (ndim a)))"

text \<open>
  The second argument of \<open>shrink\<close> is an array, an int or a tuple; with an array the result
  is a pair.
\<close>

datatype shrink_arg = ArrayArg ndarray | IntArg nat | ShapeArg "nat list"

datatype shrunk = Single ndarray | Both ndarray ndarray

definition shrink :: "ndarray \<Rightarrow> shrink_arg \<Rightarrow> error + shrunk" where
  "shrink a b =
     (case b of
        ArrayArg b' \<Rightarrow>
          if ndim a \<noteq> ndim b'
          then Inl (PyException ''input arrays must have the same number of dimensions'')
          else err_bind (shrink_shape a (shape b')) (\<lambda>a1.
               err_bind (shrink_shape b' (shape a1)) (\<lambda>b1. Inr (Both a1 b1)))
      | IntArg n \<Rightarrow> map_sum id Single (shrink_shape a [n])
      | ShapeArg s \<Rightarrow> map_sum id Single (shrink_shape a s))"


section \<open>Further array operations\<close>

definition zeros :: "nat list \<Rightarrow> ndarray" where
  "zeros s = \<lparr>shape = s, elem = (\<lambda>idx. 0)\<rparr>"

text \<open>
  \<^verbatim>\<open>empty(s)\<close> allocates without initialising; every element inside the shape is assigned before
  the source returns the array, so the initial contents are taken to be zero.
\<close>

definition nd_empty :: "nat list \<Rightarrow> ndarray" where
  "nd_empty s = zeros s"

text \<open>\<^verbatim>\<open>squeeze(a)\<close> drops the axes of length one.\<close>

fun expand_index :: "nat list \<Rightarrow> nat list \<Rightarrow> nat list" where
  "expand_index [] idx = idx"
| "expand_index (d # ds) idx =
     (if d = 1 then 0 # expand_index ds idx
      else (case idx of [] \<Rightarrow> [] | i # rest \<Rightarrow> i # expand_index ds rest))"

definition squeeze :: "ndarray \<Rightarrow> ndarray" where
  "squeeze a = \<lparr>shape = filter (\<lambda>d. d \<noteq> 1) (shape a),
               elem = (\<lambda>idx. elem a (expand_index (shape a) idx))\<rparr>"

text \<open>\<^verbatim>\<open>atleast_2d(h)\<close>, \<^verbatim>\<open>zeta[newaxis, :]\<close>, \<^verbatim>\<open>zeta[n, :]\<close> and \<^verbatim>\<open>zeta[time]\<close>.\<close>

definition newaxis0 :: "ndarray \<Rightarrow> ndarray" where
  "newaxis0 a = \<lparr>shape = 1 # shape a, elem = (\<lambda>idx. elem a (tl idx))\<rparr>"

definition atleast_2d :: "ndarray \<Rightarrow> ndarray" where
  "atleast_2d a =
     (if ndim a = 0 then newaxis0 (newaxis0 a) else if ndim a = 1 then newaxis0 a else a)"

definition select0 :: "ndarray \<Rightarrow> nat \<Rightarrow> ndarray" where
  "select0 a n = \<lparr>shape = tl (shape a), elem = (\<lambda>rest. elem a (n # rest))\<rparr>"

definition row :: "ndarray \<Rightarrow> nat \<Rightarrow> error + ndarray" where  \<comment> \<open>\<^verbatim>\<open>a[n,:]\<close>\<close>
  "row a n = (if ndim a < 2 \<or> dim0 a \<le> n then Inl IndexError else Inr (select0 a n))"

definition index0 :: "ndarray \<Rightarrow> int \<Rightarrow> error + ndarray" where  \<comment> \<open>\<^verbatim>\<open>a[t]\<close>\<close>
  "index0 a t =
     (if ndim a = 0 then Inl IndexError
      else if 0 \<le> t \<and> t < int (dim0 a) then Inr (select0 a (nat t))
      else if - int (dim0 a) \<le> t \<and> t < 0 then Inr (select0 a (nat (int (dim0 a) + t)))
      else Inl IndexError)"

text \<open>\<^verbatim>\<open>v[k]\<close> on a vector.\<close>

definition item1 :: "ndarray \<Rightarrow> nat \<Rightarrow> error + real" where
  "item1 v k = (if k < dim0 v then Inr (elem v [k]) else Inl IndexError)"

text \<open>
  \<^verbatim>\<open>z[k,:] = v\<close> and \<^verbatim>\<open>z[n,k,:] = v\<close>, where \<open>v\<close> has the shape of the slot it is written to
  (the sources allocate \<open>z\<close> from the shape of \<open>h\<close> and write fields computed from \<open>h\<close>).
\<close>

definition assign_level :: "ndarray \<Rightarrow> nat \<Rightarrow> ndarray \<Rightarrow> error + ndarray" where
  "assign_level z k v =
     (if ndim z < 2 \<or> dim0 z \<le> k then Inl IndexError
      else if shape v \<noteq> tl (shape z) then Inl (NumpyError ''shape mismatch in assignment'')
      else Inr (z\<lparr>elem := (\<lambda>idx. case idx of [] \<Rightarrow> elem z []
                   | i # rest \<Rightarrow> if i = k then elem v rest else elem z idx)\<rparr>))"

definition assign_level2 :: "ndarray \<Rightarrow> nat \<Rightarrow> nat \<Rightarrow> ndarray \<Rightarrow> error + ndarray" where
  "assign_level2 z n k v =
     (if ndim z < 3 \<or> dim0 z \<le> n \<or> shape z ! 1 \<le> k then Inl IndexError
      else if shape v \<noteq> drop 2 (shape z) then Inl (NumpyError ''shape mismatch in assignment'')
      else Inr (z\<lparr>elem := (\<lambda>idx. case idx of
                     i # j # rest \<Rightarrow> if i = n \<and> j = k then elem v rest else elem z idx
                   | _ \<Rightarrow> elem z idx)\<rparr>))"

text \<open>
  Broadcasting of two operands: shapes are aligned at their last axes, and an axis of length
  one is repeated along the other operand's axis.
\<close>

fun bshape_rev :: "nat list \<Rightarrow> nat list \<Rightarrow> nat list option" where
  "bshape_rev [] ys = Some ys"
| "bshape_rev (x # xs) [] = Some (x # xs)"
| "bshape_rev (x # xs) (y # ys) =
     (if x = y \<or> y = 1 then map_option ((#) x) (bshape_rev xs ys)
      else if x = 1 then map_option ((#) y) (bshape_rev xs ys)
      else None)"

definition broadcast_shape :: "nat list \<Rightarrow> nat list \<Rightarrow> nat list option" where
  "broadcast_shape s t = map_option rev (bshape_rev (rev s) (rev t))"

fun bindex_rev :: "nat list \<Rightarrow> nat list \<Rightarrow> nat list" where
  "bindex_rev [] idx = []"
| "bindex_rev (d # ds) [] = []"
| "bindex_rev (d # ds) (i # rest) = (if d = 1 then 0 else i) # bindex_rev ds rest"

definition bindex :: "nat list \<Rightarrow> nat list \<Rightarrow> nat list" where
  "bindex s idx = rev (bindex_rev (rev s) (rev idx))"

definition nd_binop :: "(real \<Rightarrow> real \<Rightarrow> real) \<Rightarrow> ndarray \<Rightarrow> ndarray \<Rightarrow> error + ndarray" where
  "nd_binop f x y =
     (case broadcast_shape (shape x) (shape y) of
        None \<Rightarrow> Inl (NumpyError ''shape mismatch: objects cannot be broadcast'')
      | Some s \<Rightarrow> Inr \<lparr>shape = s,
           elem = (\<lambda>idx. f (elem x (bindex (shape x) idx)) (elem y (bindex (shape y) idx)))\<rparr>)"

text \<open>The index tuples of a shape in C order, and the flat position of an index tuple.\<close>

fun indices :: "nat list \<Rightarrow> nat list list" where
  "indices [] = [[]]"
| "indices (d # ds) = concat (map (\<lambda>i. map ((#) i) (indices ds)) [0..<d])"

fun ravel :: "nat list \<Rightarrow> nat list \<Rightarrow> nat" where
  "ravel (d # ds) (i # rest) = i * prod_list ds + ravel ds rest"
| "ravel s idx = 0"

fun unravel :: "nat list \<Rightarrow> nat \<Rightarrow> nat list" where
  "unravel [] p = []"
| "unravel (d # ds) p = (p div prod_list ds) # unravel ds (p mod prod_list ds)"

definition values_of :: "ndarray \<Rightarrow> real list" where
  "values_of a = map (elem a) (indices (shape a))"

text \<open>\<^verbatim>\<open>a.min()\<close> and \<^verbatim>\<open>a.max()\<close>, which numpy refuses on an array without elements.\<close>

definition nd_min :: "ndarray \<Rightarrow> error + real" where
  "nd_min a = (case values_of a of
                 [] \<Rightarrow> Inl (NumpyError ''zero-size array to reduction operation'')
               | v # vs \<Rightarrow> Inr (fold min vs v))"

definition nd_max :: "ndarray \<Rightarrow> error + real" where
  "nd_max a = (case values_of a of
                 [] \<Rightarrow> Inl (NumpyError ''zero-size array to reduction operation'')
               | v # vs \<Rightarrow> Inr (fold max vs v))"

text \<open>
  \<^verbatim>\<open>a.reshape(n, -1)\<close> and \<^verbatim>\<open>a.reshape(s)\<close>: the elements are kept in C order. numpy infers the
  length written \<open>-1\<close> by dividing the number of elements by \<open>n\<close>, and refuses to when \<open>n\<close> is
  zero or does not divide it.
\<close>

definition reshape_rows :: "ndarray \<Rightarrow> nat \<Rightarrow> error + ndarray" where
  "reshape_rows a n =
     (let total = prod_list (shape a)
      in if n = 0 \<or> total mod n \<noteq> 0
         then Inl (NumpyError ''total size of new array must be unchanged'')
         else Inr \<lparr>shape = [n, total div n],
                   elem = (\<lambda>idx. elem a (unravel (shape a) (ravel [n, total div n] idx)))\<rparr>)"

definition reshape :: "ndarray \<Rightarrow> nat list \<Rightarrow> error + ndarray" where
  "reshape a s =
     (if prod_list s \<noteq> prod_list (shape a)
      then Inl (NumpyError ''total size of new array must be unchanged'')
      else Inr \<lparr>shape = s, elem = (\<lambda>idx. elem a (unravel (shape a) (ravel s idx)))\<rparr>)"

text \<open>\<^verbatim>\<open>a.sum(axis=0)\<close>.\<close>

definition sum_axis0 :: "ndarray \<Rightarrow> ndarray" where
  "sum_axis0 a = \<lparr>shape = tl (shape a),
                  elem = (\<lambda>idx. sum_list (map (\<lambda>k. elem a (k # idx)) [0..<dim0 a]))\<rparr>"


section \<open>Vertical coordinates: scoordr, scoordw, zatr\<close>

text \<open>
  \<^verbatim>\<open>arange(start, stop, step)\<close> has \<open>ceil((stop - start)/step)\<close> samples \<open>start + k*step\<close>.
  \<^verbatim>\<open>sc_w = arange(-1, 1./N, 1./N)\<close>; the float division \<^verbatim>\<open>1./N\<close> raises for \<open>N = 0\<close>.
\<close>

definition arange :: "real \<Rightarrow> real \<Rightarrow> real \<Rightarrow> ndarray" where
  "arange start stop step =
     array1 (map (\<lambda>k. start + real k * step) [0..<nat \<lceil>(stop - start) / step\<rceil>])"

definition sc_w_of :: "nat \<Rightarrow> error + ndarray" where
  "sc_w_of N = (if N = 0 then Inl ZeroDivisionError
                else Inr (arange (- 1) (1 / real N) (1 / real N)))"

definition Cs_curve :: "real \<Rightarrow> real \<Rightarrow> real \<Rightarrow> real" where
  "Cs_curve theta_b theta_s sc =
     (1 - theta_b) * sinh (theta_s * sc) / sinh theta_s
     + 0.5 * theta_b * (tanh (theta_s * (sc + 0.5)) - tanh (0.5 * theta_s)) / tanh (0.5 * theta_s)"

text \<open>\<^verbatim>\<open>(sc[k]-Cs[k])*hc + Cs[k]*h\<close>, a field of the shape of \<open>h\<close>.\<close>

definition z0_level :: "ndarray \<Rightarrow> ndarray \<Rightarrow> real \<Rightarrow> ndarray \<Rightarrow> nat \<Rightarrow> error + ndarray" where
  "z0_level sc Cs hc h k =
     err_bind (item1 sc k) (\<lambda>s.
     err_bind (item1 Cs k) (\<lambda>c.
       Inr (nd_map (\<lambda>v. (s - c) * hc + c * v) h)))"

text \<open>
  The loop \<^verbatim>\<open>for k in arange(N): z[k,:] = (sc[k]-Cs[k])*hc + Cs[k]*h\<close>, which \<open>scoordr\<close> runs
  over \<open>sc_r\<close>, \<open>Cs_r\<close> and \<open>scoordw\<close> over \<open>sc_w\<close>, \<open>Cs_w\<close>.
\<close>

fun scoord_fill ::
  "ndarray \<Rightarrow> ndarray \<Rightarrow> real \<Rightarrow> ndarray \<Rightarrow> ndarray \<Rightarrow> nat list \<Rightarrow> error + ndarray" where
  "scoord_fill sc Cs hc h z [] = Inr z"
| "scoord_fill sc Cs hc h z (k # ks) =
     err_bind (z0_level sc Cs hc h k) (\<lambda>v.
     err_bind (assign_level z k v) (\<lambda>z'.
       scoord_fill sc Cs hc h z' ks))"

text \<open>\<open>scoordr_z\<close> and \<open>scoordw_z\<close> are the arrays \<open>z_r\<close> and \<open>z_w\<close> the sources pass to \<open>squeeze\<close>.\<close>

definition scoordr_z :: "ndarray \<Rightarrow> real \<Rightarrow> real \<Rightarrow> real \<Rightarrow> nat \<Rightarrow> error + ndarray" where
  "scoordr_z h hc theta_b theta_s N =
     err_bind (sc_w_of N) (\<lambda>sc_w.
       let sc_r = avg0 sc_w;
           Cs_r = nd_map (Cs_curve theta_b theta_s) sc_r
       in scoord_fill sc_r Cs_r hc h (nd_empty (N # shape h)) [0..<N])"

definition scoordr :: "ndarray \<Rightarrow> real \<Rightarrow> real \<Rightarrow> real \<Rightarrow> nat \<Rightarrow> error + ndarray" where
  "scoordr h hc theta_b theta_s N = map_sum id squeeze (scoordr_z h hc theta_b theta_s N)"

definition scoordw_z :: "ndarray \<Rightarrow> real \<Rightarrow> real \<Rightarrow> real \<Rightarrow> nat \<Rightarrow> error + ndarray" where
  "scoordw_z h hc theta_b theta_s N =
     err_bind (sc_w_of N) (\<lambda>sc_w.
       let Cs_w = nd_map (Cs_curve theta_b theta_s) sc_w
       in scoord_fill sc_w Cs_w hc h (nd_empty (N # shape h)) [0..<N])"

definition scoordw :: "ndarray \<Rightarrow> real \<Rightarrow> real \<Rightarrow> real \<Rightarrow> nat \<Rightarrow> error + ndarray" where
  "scoordw h hc theta_b theta_s N = map_sum id squeeze (scoordw_z h hc theta_b theta_s N)"

text \<open>
  The dataset \<open>zatr\<close> reads: named variables and named dimensions. As in a ROMS file, \<open>hc\<close> is
  read as a scalar and \<open>Cs_r\<close>, \<open>sc_r\<close> as vectors.
\<close>

record dataset =
  variables :: "string \<rightharpoonup> ndarray"
  dimensions :: "string \<rightharpoonup> nat"

definition get_var :: "dataset \<Rightarrow> string \<Rightarrow> error + ndarray" where
  "get_var nc name = (case variables nc name of None \<Rightarrow> Inl KeyError | Some v \<Rightarrow> Inr v)"

definition get_dim :: "dataset \<Rightarrow> string \<Rightarrow> error + nat" where
  "get_dim nc name = (case dimensions nc name of None \<Rightarrow> Inl KeyError | Some n \<Rightarrow> Inr n)"

text \<open>
  \<^verbatim>\<open>z[n,k,:] = z0 + zeta[n,:]*(1.0 + z0/h)\<close> with \<^verbatim>\<open>z0 = (sc_r[k]-Cs_r[k])*hc + Cs_r[k]*h\<close>.
\<close>

definition zatr_cell ::
  "ndarray \<Rightarrow> ndarray \<Rightarrow> real \<Rightarrow> ndarray \<Rightarrow> ndarray \<Rightarrow> ndarray \<Rightarrow> nat \<Rightarrow> nat \<Rightarrow> error + ndarray" where
  "zatr_cell sc Cs hc h zeta z n k =
     err_bind (z0_level sc Cs hc h k) (\<lambda>z0.
     err_bind (row zeta n) (\<lambda>zeta_n.
     err_bind (nd_binop (/) z0 h) (\<lambda>q.
     err_bind (nd_binop (*) zeta_n (nd_map (\<lambda>v. 1.0 + v) q)) (\<lambda>corr.
     err_bind (nd_binop (+) z0 corr) (\<lambda>v.
       assign_level2 z n k v)))))"

fun zatr_levels ::
  "ndarray \<Rightarrow> ndarray \<Rightarrow> real \<Rightarrow> ndarray \<Rightarrow> ndarray \<Rightarrow> ndarray \<Rightarrow> nat \<Rightarrow> nat list \<Rightarrow> error + ndarray" where
  "zatr_levels sc Cs hc h zeta z n [] = Inr z"
| "zatr_levels sc Cs hc h zeta z n (k # ks) =
     err_bind (zatr_cell sc Cs hc h zeta z n k) (\<lambda>z'. zatr_levels sc Cs hc h zeta z' n ks)"

fun zatr_records ::
  "ndarray \<Rightarrow> ndarray \<Rightarrow> real \<Rightarrow> ndarray \<Rightarrow> ndarray \<Rightarrow> nat \<Rightarrow> ndarray \<Rightarrow> nat list \<Rightarrow> error + ndarray" where
  "zatr_records sc Cs hc h zeta N z [] = Inr z"
| "zatr_records sc Cs hc h zeta N z (n # ns) =
     err_bind (zatr_levels sc Cs hc h zeta z n [0..<N]) (\<lambda>z'.
       zatr_records sc Cs hc h zeta N z' ns)"

definition zatr :: "dataset \<Rightarrow> int option \<Rightarrow> error + ndarray" where
  "zatr nc time =
     err_bind (get_var nc ''h'') (\<lambda>h0.
     let h = atleast_2d h0 in
     err_bind (get_var nc ''hc'') (\<lambda>hcv.
     let hc = elem hcv [] in
     err_bind (get_var nc ''Cs_r'') (\<lambda>Cs_r.
     err_bind (case get_var nc ''sc_r'' of Inr v \<Rightarrow> Inr v | Inl e \<Rightarrow> get_var nc ''s_rho'') (\<lambda>sc_r.
     err_bind (case time of
                 None \<Rightarrow> Inr (zeros (shape h))
               | Some t \<Rightarrow> err_bind (get_var nc ''zeta'') (\<lambda>zv. index0 zv t)) (\<lambda>zeta0.
     let zeta = (if ndim zeta0 = 2 then newaxis0 zeta0 else zeta0) in
     err_bind (get_dim nc ''N'') (\<lambda>N.
     err_bind (if ndim zeta = 0 then Inl IndexError else Inr (dim0 zeta)) (\<lambda>ti.
     err_bind (zatr_records sc_r Cs_r hc h zeta N (nd_empty (ti # N # shape h)) [0..<ti]) (\<lambda>z.
       Inr (squeeze z)))))))))"


section \<open>isoslice\<close>

text \<open>
  The lines of \<open>isoslice\<close> between the reshapes and the masking, on the two-dimensional
  arrays \<open>var\<close> and \<open>prop\<close> (test axis first, one column per remaining index). The division
  is a parameter \<open>dv\<close>: numpy's float division, whose value at a zero denominator (an
  infinity or a NaN) the model leaves open.

  \<^verbatim>\<open>zc = where((prop[:-1,:]*prop[1:,:])<0, 1., 0.)\<close>
\<close>

definition zero_crossings :: "ndarray \<Rightarrow> ndarray" where
  "zero_crossings prop =
     nd_map (\<lambda>p. if p < 0 then 1 else 0) (nd_map2 (*) (init0 prop) (tail0 prop))"

text \<open>
  \<^verbatim>\<open>varl = var[:-1,:]*zc;  varh = var[1:,:]*zc
  propl = prop[:-1,:]*zc;  proph = prop[1:,:]*zc
  result = varl - propl*(varh-varl)/(proph-propl)
  result = where(zc==1., result, 0.)\<close>
\<close>

definition interpolate :: "(real \<Rightarrow> real \<Rightarrow> real) \<Rightarrow> ndarray \<Rightarrow> ndarray \<Rightarrow> ndarray \<Rightarrow> ndarray" where
  "interpolate dv var prop zc =
     (let varl = nd_map2 (*) (init0 var) zc;
          varh = nd_map2 (*) (tail0 var) zc;
          propl = nd_map2 (*) (init0 prop) zc;
          proph = nd_map2 (*) (tail0 prop) zc;
          result = nd_map2 (-) varl
                     (nd_map2 dv (nd_map2 (*) propl (nd_map2 (-) varh varl))
                                 (nd_map2 (-) proph propl))
      in nd_map2 (\<lambda>z r. if z = 1 then r else 0) zc result)"

text \<open>
  \<^verbatim>\<open>szc = zc.sum(axis=0);  szc = where(szc==0., 1, szc)\<close>
\<close>

definition crossing_divisor :: "ndarray \<Rightarrow> ndarray" where
  "crossing_divisor zc = nd_map (\<lambda>c. if c = 0 then 1 else c) (sum_axis0 zc)"

text \<open>\<^verbatim>\<open>result = result.sum(axis=0)/szc\<close>\<close>

definition column_means :: "(real \<Rightarrow> real \<Rightarrow> real) \<Rightarrow> ndarray \<Rightarrow> ndarray \<Rightarrow> ndarray \<Rightarrow> ndarray" where
  "column_means dv var prop zc =
     nd_map2 dv (sum_axis0 (interpolate dv var prop zc)) (crossing_divisor zc)"

text \<open>
  The result is a plain array, or with masking a masked array: the data and, for each
  index, whether it is masked.
\<close>

record masked_array =
  ma_data :: ndarray
  ma_mask :: "nat list \<Rightarrow> bool"

datatype iso_result = Plain ndarray | Masked masked_array

definition iso_data :: "iso_result \<Rightarrow> ndarray" where
  "iso_data r = (case r of Plain a \<Rightarrow> a | Masked m \<Rightarrow> ma_data m)"

text \<open>
  \<^verbatim>\<open>result = ma.masked_where(zc.sum(axis=0)==0, result)\<close>;
  \<^verbatim>\<open>all(result.mask)\<close> looks at every column.
\<close>

definition column_mask :: "ndarray \<Rightarrow> nat list \<Rightarrow> bool" where
  "column_mask zc idx = (elem (sum_axis0 zc) idx = 0)"

definition all_masked :: "ndarray \<Rightarrow> bool" where
  "all_masked zc = list_all (column_mask zc) (indices (shape (sum_axis0 zc)))"

definition isoslice_dv ::
  "(real \<Rightarrow> real \<Rightarrow> real) \<Rightarrow> ndarray \<Rightarrow> ndarray \<Rightarrow> real \<Rightarrow> int \<Rightarrow> bool \<Rightarrow> error + iso_result" where
  "isoslice_dv dv var prop isoval axis masking =
     (if length (shape (squeeze var)) \<le> 2
      then Inl (ValueError ''variable must have at least two dimensions'')
      else if \<not> shape prop = shape var
      then Inl (ValueError ''dimension of var and prop must be identical'')
      else
        err_bind (swapaxes var 0 axis) (\<lambda>var1.
        err_bind (swapaxes prop 0 axis) (\<lambda>prop1.
        let prop2 = nd_map (\<lambda>p. p - isoval) prop1;
            sz = shape var1
        in
        err_bind (reshape_rows var1 (dim0 var1)) (\<lambda>var3.
        err_bind (reshape_rows prop2 (dim0 var1)) (\<lambda>prop3.
        let zc = zero_crossings prop3;
            result = column_means dv var3 prop3 zc
        in
        if masking then
          (if all_masked zc then
             err_bind (nd_min (nd_map (\<lambda>p. p + isoval) prop3)) (\<lambda>lo.
             err_bind (nd_max (nd_map (\<lambda>p. p + isoval) prop3)) (\<lambda>hi.
               Inl (Warning isoval lo hi)))
           else
             err_bind (reshape result (tl sz)) (\<lambda>r.
               Inr (Masked \<lparr>ma_data = r,
                            ma_mask = (\<lambda>idx. column_mask zc [ravel (tl sz) idx])\<rparr>)))
        else
          err_bind (reshape result (tl sz)) (\<lambda>r. Inr (Plain r)))))))"

definition isoslice :: "ndarray \<Rightarrow> ndarray \<Rightarrow> real \<Rightarrow> int \<Rightarrow> bool \<Rightarrow> error + iso_result" where
  "isoslice = isoslice_dv (/)"

section \<open>arg\_nearest\<close>

text \<open>
  \<^verbatim>\<open>reduce(add, [(y-yo)**2 for (y, yo) in zip(x, xo)])\<close>: the terms are added from the left,
  with broadcasting; \<open>reduce\<close> of an empty list raises \<open>TypeError\<close>.
\<close>

fun add_all :: "ndarray \<Rightarrow> ndarray list \<Rightarrow> error + ndarray" where
  "add_all q [] = Inr q"
| "add_all q (t # ts) = err_bind (nd_binop (+) q t) (\<lambda>q'. add_all q' ts)"

definition reduce_add :: "ndarray list \<Rightarrow> error + ndarray" where
  "reduce_add ts = (case ts of [] \<Rightarrow> Inl TypeError | t # rest \<Rightarrow> add_all t rest)"

text \<open>The asserts of \<open>arg_nearest\<close>, in the order of the source.\<close>

fun check_ranks :: "ndarray list \<Rightarrow> nat \<Rightarrow> error + unit" where
  "check_ranks [] n = Inr ()"
| "check_ranks (p # ps) n =
     (if ndim p = n then check_ranks ps n else Inl (AssertionError ''dimensions of array''))"

text \<open>
  \<^verbatim>\<open>where(q == q.min())\<close>: one index array per axis, listing in C order the positions where
  \<open>q\<close> equals its minimum.
\<close>

definition where_equal :: "ndarray \<Rightarrow> real \<Rightarrow> nat list list" where
  "where_equal q m =
     (let hits = filter (\<lambda>idx. elem q idx = m) (indices (shape q))
      in map (\<lambda>ax. map (\<lambda>idx. idx ! ax) hits) [0..<ndim q])"

definition arg_nearest ::
  "ndarray list \<Rightarrow> real list \<Rightarrow> real list option \<Rightarrow> error + nat list list" where
  "arg_nearest x xo scale =
     (if length x \<noteq> length xo then Inl (AssertionError ''must have arrays'')
      else err_bind (check_ranks x (length xo)) (\<lambda>_.
        err_bind
          (case scale of
             None \<Rightarrow> Inr (x, xo)
           | Some sc \<Rightarrow>
               if sc = [] then Inr (x, xo)
               else if length x \<noteq> length sc
               then Inl (AssertionError ''dimensions of array and scale must be identical'')
               else Inr (map (\<lambda>(p, q). nd_map (\<lambda>v. v * q) p) (zip x sc),
                         map (\<lambda>(p, q). p * q) (zip xo sc)))
          (\<lambda>(x', xo').
        err_bind (reduce_add (map (\<lambda>(y, yo). nd_map (\<lambda>v. (v - yo)\<^sup>2) y) (zip x' xo'))) (\<lambda>q.
        err_bind (nd_min q) (\<lambda>m.
          Inr (where_equal q m))))))"

section \<open>The dataset dispatcher of Dataset.py\<close>

text \<open>
  The argument of \<open>Dataset\<close> and \<open>MFDataset\<close> is a string, a list or tuple of file names, or
  any other object; of an object the dispatcher asks whether it has an attribute
  \<open>variables\<close> and whether that attribute is a dictionary. The netCDF libraries are outside
  the repository: \<open>nc_open\<close> is \<^verbatim>\<open>netCDF4.Dataset(file, 'r')\<close>, \<open>mf_open\<close> is
  \<^verbatim>\<open>MFnetCDF4.Dataset(files)\<close> on a list, \<open>mf_glob\<close> the same call on a string, \<open>pupy_open\<close> is
  \<^verbatim>\<open>pupynere.NetCDFFile(file)\<close>. \<^verbatim>\<open>sorted\<close> orders strings by their bytes.
\<close>

datatype 'h py_object =
    PyStr string
  | PyList "string list"
  | PyTuple "string list"
  | PyObj 'h

record ('r, 'h) netcdf_lib =
  nc_open :: "string \<Rightarrow> 'r"
  mf_open :: "string list \<Rightarrow> 'r"
  mf_glob :: "string \<Rightarrow> 'r"
  pupy_open :: "string \<Rightarrow> 'r"
  has_variables :: "'h \<Rightarrow> bool"
  variables_is_dict :: "'h \<Rightarrow> bool"
  is_pupynere_file :: "'h \<Rightarrow> bool"

datatype ('r, 'h) handle = Opened 'r | Passed 'h

text \<open>
  The module defines \<open>Dataset\<close> and \<open>MFDataset\<close> inside a \<^verbatim>\<open>try\<close> that imports netCDF4; when the
  import fails it defines \<open>Dataset\<close> alone, over pupynere.
\<close>

definition Dataset_netCDF4 :: "('r, 'h) netcdf_lib \<Rightarrow> 'h py_object \<Rightarrow> error + ('r, 'h) handle" where
  "Dataset_netCDF4 lib ncfile =
     (case ncfile of
        PyStr f \<Rightarrow> Inr (Opened (nc_open lib f))
      | PyList fs \<Rightarrow> Inr (Opened (mf_open lib (sort fs)))
      | PyTuple fs \<Rightarrow> Inr (Opened (mf_open lib (sort fs)))
      | PyObj h \<Rightarrow>
          if has_variables lib h then
            (if variables_is_dict lib h then Inr (Passed h)
             else Inl (AssertionError ''variables attribute must be a dictionary''))
          else Inl TypeError)"

definition MFDataset :: "('r, 'h) netcdf_lib \<Rightarrow> 'h py_object \<Rightarrow> error + ('r, 'h) handle" where
  "MFDataset lib ncfile =
     (case ncfile of
        PyStr f \<Rightarrow> Inr (Opened (mf_glob lib f))
      | PyList fs \<Rightarrow> Inr (Opened (mf_open lib (sort fs)))
      | PyTuple fs \<Rightarrow> Inr (Opened (mf_open lib (sort fs)))
      | PyObj h \<Rightarrow>
          if has_variables lib h then
            (if variables_is_dict lib h then Inr (Passed h)
             else Inl (AssertionError ''variables attribute must be a dictionary''))
          else Inl TypeError)"

definition Dataset_pupynere :: "('r, 'h) netcdf_lib \<Rightarrow> 'h py_object \<Rightarrow> error + ('r, 'h) handle" where
  "Dataset_pupynere lib ncfile =
     (case ncfile of
        PyStr f \<Rightarrow> Inr (Opened (pupy_open lib f))
      | PyObj h \<Rightarrow> if is_pupynere_file lib h then Inr (Passed h) else Inl TypeError
      | _ \<Rightarrow> Inl TypeError)"

definition Dataset ::
  "bool \<Rightarrow> ('r, 'h) netcdf_lib \<Rightarrow> 'h py_object \<Rightarrow> error + ('r, 'h) handle" where
  "Dataset have_netCDF4 lib ncfile =
     (if have_netCDF4 then Dataset_netCDF4 lib ncfile else Dataset_pupynere lib ncfile)"


section \<open>Example data\<close>

text \<open>Readers for small examples: the 1-D results of \<open>shrink\<close> as lists.\<close>

definition shrunk_lists :: "shrunk \<Rightarrow> real list list" where
  "shrunk_lists r = (case r of Single x \<Rightarrow> [to_list1 x] | Both x y \<Rightarrow> [to_list1 x, to_list1 y])"

text \<open>An array of a given shape with the same value everywhere (\<^verbatim>\<open>v*ones(s)\<close>).\<close>

definition full :: "nat list \<Rightarrow> real \<Rightarrow> ndarray" where
  "full s v = \<lparr>shape = s, elem = (\<lambda>idx. v)\<rparr>"

text \<open>
  An array whose columns along the first axis are all the list \<open>xs\<close>: element \<open>(k, ...)\<close> is
  \<open>xs[k]\<close>.
\<close>

definition column_field :: "real list \<Rightarrow> nat list \<Rightarrow> ndarray" where
  "column_field xs rest =
     \<lparr>shape = length xs # rest, elem = (\<lambda>idx. case idx of [] \<Rightarrow> 0 | k # _ \<Rightarrow> xs ! k)\<rparr>"

section \<open>Properties of shrink\<close>

declare shrink_while1.simps [simp del] shrink_while.simps [simp del]

lemma swap_at_invol [simp]: "swap_at i j (swap_at i j xs) = xs"
  by (auto simp: swap_at_def list_update_swap nth_list_update list_eq_iff_nth_eq)

lemma length_swap_at [simp]: "length (swap_at i j xs) = length xs"
  by (simp add: swap_at_def)

lemma shape_avg0: "shape a = n # ds \<Longrightarrow> shape (avg0 a) = (n - 1) # ds"
  by (simp add: avg0_def nd_map_def nd_map2_def tail0_def)

lemma shape_trim0: "shape a = n # ds \<Longrightarrow> shape (trim0 a) = (n - 2) # ds"
  by (simp add: trim0_def)

lemma shrink_while1_noop: "shape a = n # ds \<Longrightarrow> n \<le> dm \<Longrightarrow> shrink_while1 a dm = Inr a"
  by (subst shrink_while1.simps) simp

lemma shrink_while1_shape:
  "shape a = n # ds \<Longrightarrow> \<exists>a'. shrink_while1 a dm = Inr a' \<and> shape a' = min n dm # ds"
proof (induction a dm arbitrary: n rule: shrink_while1.induct)
  case (1 a dm)
  show ?case
  proof (cases "n > dm")
    case True
    have s: "shape (avg0 a) = (n - 1) # ds" using 1(3) by (rule shape_avg0)
    have "\<not> int dm - int n \<ge> 2" using True by simp
    from 1(2)[OF 1(3) True this s] obtain a' where
      "shrink_while1 (avg0 a) dm = Inr a'" "shape a' = min (n - 1) dm # ds" by blast
    then show ?thesis using True 1(3) by (subst shrink_while1.simps) (auto simp: min_def)
  next
    case False
    then show ?thesis using 1(3) by (subst shrink_while1.simps) (auto simp: min_def)
  qed
qed

lemma shape_shrink_step:
  "shape a = n # ds \<Longrightarrow> n > dm \<Longrightarrow> \<exists>m. shape (shrink_step a dm) = m # ds \<and> dm \<le> m \<and> m < n"
  by (auto simp: shrink_step_def Let_def dim0_def shape_avg0 shape_trim0)

lemma shrink_while_noop: "shape a = n # ds \<Longrightarrow> n \<le> dm \<Longrightarrow> shrink_while a dm = Inr a"
  by (subst shrink_while.simps) simp

lemma shrink_while_shape:
  "shape a = n # ds \<Longrightarrow> \<exists>a'. shrink_while a dm = Inr a' \<and> shape a' = min n dm # ds"
proof (induction a dm arbitrary: n rule: shrink_while.induct)
  case (1 a dm)
  show ?case
  proof (cases "n > dm")
    case True
    from shape_shrink_step[OF 1(2) True] obtain m where
      m: "shape (shrink_step a dm) = m # ds" "dm \<le> m" "m < n" by blast
    from 1(1)[OF 1(2) True m(1)] obtain a' where
      "shrink_while (shrink_step a dm) dm = Inr a'" "shape a' = min m dm # ds" by blast
    then show ?thesis using True 1(2) m by (subst shrink_while.simps) (auto simp: min_def)
  next
    case False
    then show ?thesis using 1(2) by (subst shrink_while.simps) (auto simp: min_def)
  qed
qed


lemma swap_at_0_shape:
  assumes "k < length s"
  shows "\<exists>ds. swap_at 0 k s = (s ! k) # ds \<and> (\<forall>m. swap_at 0 k (m # ds) = s[k := m])"
proof (cases s)
  case Nil
  then show ?thesis using assms by simp
next
  case (Cons x xs)
  show ?thesis
  proof (cases k)
    case 0
    then show ?thesis using Cons by (simp add: swap_at_def)
  next
    case (Suc j)
    then have j: "j < length xs" using assms Cons by simp
    have "swap_at 0 k s = (s ! k) # xs[j := x]"
      using Cons Suc j by (simp add: swap_at_def)
    moreover have "\<forall>m. swap_at 0 k (m # xs[j := x]) = s[k := m]"
      using Cons Suc j by (simp add: swap_at_def)
    ultimately show ?thesis by blast
  qed
qed

lemma py_index_neg:
  "k < r \<Longrightarrow> r - k \<le> length b \<Longrightarrow> py_index b (int k - int r) = Inr (b ! (length b + k - r))"
proof -
  assume a: "k < r" "r - k \<le> length b"
  have "nat (int (length b) + (int k - int r)) = length b + k - r" using a by linarith
  then show ?thesis using a by (auto simp: py_index_def)
qed

lemma py_index_last: "0 < length b \<Longrightarrow> py_index b (- 1) = Inr (b ! (length b - 1))"
proof -
  assume lb: "0 < length b"
  then have i: "1 \<le> int (length b)" by linarith
  have n: "nat (int (length b) + - 1) = length b - 1" by linarith
  show ?thesis unfolding py_index_def using i n by simp
qed

lemma norm_axis_0: "0 < r \<Longrightarrow> norm_axis r 0 = Inr 0"
  by (simp add: norm_axis_def)

lemma norm_axis_neg: "k < r \<Longrightarrow> norm_axis r (int k - int r) = Inr k"
  by (simp add: norm_axis_def)

lemma swapaxes_neg:
  "k < ndim a \<Longrightarrow> swapaxes a 0 (int k - int (ndim a)) =
     Inr \<lparr>shape = swap_at 0 k (shape a), elem = (\<lambda>idx. elem a (swap_at 0 k idx))\<rparr>"
  by (simp add: swapaxes_def err_bind_def norm_axis_0 norm_axis_neg)

lemma shrink_axis_props:
  assumes k: "k < ndim a" and b: "ndim a - k \<le> length b"
  defines "t \<equiv> b ! (length b + k - ndim a)"
  shows "\<exists>a'. shrink_axis b a (int k - int (ndim a)) = Inr a'
           \<and> shape a' = (shape a)[k := min (shape a ! k) t]
           \<and> (shape a ! k \<le> t \<longrightarrow> a' = a)"
proof -
  let ?r = "ndim a"
  let ?a1 = "\<lparr>shape = swap_at 0 k (shape a), elem = (\<lambda>idx. elem a (swap_at 0 k idx))\<rparr>"
  from k have kl: "k < length (shape a)" by (simp add: ndim_def)
  from swap_at_0_shape[OF kl] obtain ds where
    ds: "swap_at 0 k (shape a) = (shape a ! k) # ds"
        "\<And>m. swap_at 0 k (m # ds) = (shape a)[k := m]" by blast
  have s1: "shape ?a1 = (shape a ! k) # ds" using ds(1) by simp
  from shrink_while_shape[OF s1, of t] obtain a2 where
    a2: "shrink_while ?a1 t = Inr a2" "shape a2 = min (shape a ! k) t # ds" by blast
  have n2: "ndim a2 = ndim a" using a2(2) ds(1) kl
    by (metis length_swap_at length_Cons ndim_def)
  have k2: "k < ndim a2" using n2 k by simp
  have sw2: "swapaxes a2 0 (int k - int (ndim a)) =
     Inr \<lparr>shape = swap_at 0 k (shape a2), elem = (\<lambda>idx. elem a2 (swap_at 0 k idx))\<rparr>"
    using swapaxes_neg[OF k2] n2 by simp
  have run: "shrink_axis b a (int k - int ?r) =
     Inr \<lparr>shape = swap_at 0 k (shape a2), elem = (\<lambda>idx. elem a2 (swap_at 0 k idx))\<rparr>"
    using py_index_neg[OF k b] swapaxes_neg[OF k] a2(1) sw2
    by (simp add: shrink_axis_def err_bind_def t_def)
  have shp: "swap_at 0 k (shape a2) = (shape a)[k := min (shape a ! k) t]"
    using a2(2) ds(2) by simp
  have noop: "shape a ! k \<le> t \<Longrightarrow>
     \<lparr>shape = swap_at 0 k (shape a2), elem = (\<lambda>idx. elem a2 (swap_at 0 k idx))\<rparr> = a"
  proof -
    assume le: "shape a ! k \<le> t"
    have "shrink_while ?a1 t = Inr ?a1" using s1 le by (rule shrink_while_noop)
    then have "a2 = ?a1" using a2(1) by simp
    then show ?thesis by simp
  qed
  show ?thesis using run shp noop by simp
qed


lemma shrink_axes_props:
  "ndim a = r \<Longrightarrow> r \<le> length b \<Longrightarrow> k0 \<le> r \<Longrightarrow> r - k0 = n \<Longrightarrow>
   \<exists>a'. shrink_axes b a (map (\<lambda>k. int k - int r) [k0..<r]) = Inr a'
        \<and> length (shape a') = r
        \<and> (\<forall>i<r. shape a' ! i =
              (if i < k0 then shape a ! i else min (shape a ! i) (b ! (length b + i - r))))
        \<and> ((\<forall>i<r. k0 \<le> i \<longrightarrow> shape a ! i \<le> b ! (length b + i - r)) \<longrightarrow> a' = a)"
proof (induction n arbitrary: k0 a)
  case 0
  then show ?case by (simp add: ndim_def)
next
  case (Suc n)
  then have k0: "k0 < r" by simp
  have k0a: "k0 < ndim a" and ba: "ndim a - k0 \<le> length b" using Suc.prems k0 by simp_all
  from shrink_axis_props[OF k0a ba] obtain a1 where
    a1: "shrink_axis b a (int k0 - int r) = Inr a1"
        "shape a1 = (shape a)[k0 := min (shape a ! k0) (b ! (length b + k0 - r))]"
        "shape a ! k0 \<le> b ! (length b + k0 - r) \<longrightarrow> a1 = a"
    using Suc.prems(1) by auto
  have r1: "ndim a1 = r" using a1(2) Suc.prems(1) by (simp add: ndim_def)
  have "r - Suc k0 = n" using Suc.prems by simp
  from Suc.IH[OF r1 Suc.prems(2) _ this] k0 obtain a' where
    a': "shrink_axes b a1 (map (\<lambda>k. int k - int r) [Suc k0..<r]) = Inr a'"
        "length (shape a') = r"
        "\<forall>i<r. shape a' ! i =
              (if i < Suc k0 then shape a1 ! i else min (shape a1 ! i) (b ! (length b + i - r)))"
        "(\<forall>i<r. Suc k0 \<le> i \<longrightarrow> shape a1 ! i \<le> b ! (length b + i - r)) \<longrightarrow> a' = a1"
    by auto
  have run: "shrink_axes b a (map (\<lambda>k. int k - int r) [k0..<r]) = Inr a'"
    using k0 a1(1) a'(1) by (simp add: upt_conv_Cons err_bind_def)
  have la: "length (shape a) = r" using Suc.prems(1) by (simp add: ndim_def)
  have shp: "\<forall>i<r. shape a' ! i =
              (if i < k0 then shape a ! i else min (shape a ! i) (b ! (length b + i - r)))"
  proof (intro allI impI)
    fix i assume i: "i < r"
    show "shape a' ! i =
              (if i < k0 then shape a ! i else min (shape a ! i) (b ! (length b + i - r)))"
      using a'(3) i a1(2) la by (cases "i = k0") (auto simp: nth_list_update)
  qed
  have noop: "(\<forall>i<r. k0 \<le> i \<longrightarrow> shape a ! i \<le> b ! (length b + i - r)) \<longrightarrow> a' = a"
  proof
    assume h: "\<forall>i<r. k0 \<le> i \<longrightarrow> shape a ! i \<le> b ! (length b + i - r)"
    then have "a1 = a" using a1(3) k0 by simp
    then show "a' = a" using a'(4) h by simp
  qed
  show ?case using run a'(2) shp noop by blast
qed

lemma shrink_shape_props:
  assumes "ndim a \<le> length b"
  shows "\<exists>a'. shrink_shape a b = Inr a'
        \<and> ndim a' = ndim a
        \<and> (\<forall>i<ndim a. shape a' ! i = min (shape a ! i) (b ! (length b + i - ndim a)))
        \<and> ((\<forall>i<ndim a. shape a ! i \<le> b ! (length b + i - ndim a)) \<longrightarrow> a' = a)"
proof (cases "ndim a = 1")
  case True
  then obtain n where n: "shape a = [n]"
    by (cases "shape a") (auto simp: ndim_def)
  have lb: "0 < length b" using assms True by (cases b) auto
  have pi: "py_index b (- 1) = Inr (b ! (length b - 1))" using lb by (rule py_index_last)
  from shrink_while1_shape[OF n, of "b ! (length b - 1)"] obtain a' where
    a': "shrink_while1 a (b ! (length b - 1)) = Inr a'" "shape a' = [min n (b ! (length b - 1))]"
    by blast
  have "n \<le> b ! (length b - 1) \<Longrightarrow> a' = a"
    using shrink_while1_noop[OF n, of "b ! (length b - 1)"] a'(1) by simp
  then show ?thesis using True pi a' n
    by (simp add: shrink_shape_def err_bind_def ndim_def)
next
  case False
  from shrink_axes_props[OF refl assms, of 0 "ndim a"] obtain a' where
    "shrink_axes b a (map (\<lambda>k. int k - int (ndim a)) [0..<ndim a]) = Inr a'"
    "length (shape a') = ndim a"
    "\<forall>i<ndim a. shape a' ! i = min (shape a ! i) (b ! (length b + i - ndim a))"
    "(\<forall>i<ndim a. shape a ! i \<le> b ! (length b + i - ndim a)) \<longrightarrow> a' = a"
    by auto
  then show ?thesis using False
    by (simp add: shrink_shape_def neg_range_def ndim_def)
qed

lemma shrink_shape_min:
  assumes "shrink_shape a b = Inr a'" "ndim a = length b"
  shows "shape a' = map2 min (shape a) b"
proof -
  from shrink_shape_props[of a b] assms obtain
    "length (shape a') = length b"
    "\<forall>i<length b. shape a' ! i = min (shape a ! i) (b ! i)"
    by (auto simp: ndim_def)
  then show ?thesis using assms(2)
    by (auto simp: list_eq_iff_nth_eq ndim_def)
qed

text \<open>
  Claim C1. For arrays \<open>a\<close> and \<open>b\<close> of equal rank, \<open>shrink(a, b)\<close> returns a pair of arrays
  of one shape, the axis-wise minimum of the two input shapes. Shrinking is idempotent:
  shrinking an array to the shape it already has returns the array itself, a second
  \<open>shrink\<close> of the first result to the same target returns it unchanged, and so does a
  second \<open>shrink\<close> of the returned pair.
\<close>

theorem shrink_pair_shapes_equal:
  assumes "ndim a = ndim b"
  shows "\<exists>a' b'. shrink a (ArrayArg b) = Inr (Both a' b')
          \<and> shape a' = shape b'
          \<and> shape a' = map2 min (shape a) (shape b)
          \<and> shrink a (ShapeArg (shape a)) = Inr (Single a)
          \<and> shrink a' (ShapeArg (shape b)) = Inr (Single a')
          \<and> shrink a' (ArrayArg b') = Inr (Both a' b')"
proof -
  have lab: "ndim a \<le> length (shape b)" using assms by (simp add: ndim_def)
  from shrink_shape_props[OF lab] obtain a' where
    a': "shrink_shape a (shape b) = Inr a'" "ndim a' = ndim a" by blast
  have sa': "shape a' = map2 min (shape a) (shape b)"
    using shrink_shape_min[OF a'(1)] assms by (simp add: ndim_def)
  have lba: "ndim b \<le> length (shape a')" using a'(2) assms by (simp add: ndim_def)
  from shrink_shape_props[OF lba] obtain b' where
    b': "shrink_shape b (shape a') = Inr b'" "ndim b' = ndim b" by blast
  have "shape b' = map2 min (shape b) (shape a')"
    using shrink_shape_min[OF b'(1)] a'(2) assms by (simp add: ndim_def)
  then have sb': "shape b' = shape a'"
    using sa' assms by (auto simp: list_eq_iff_nth_eq ndim_def)
  have run: "shrink a (ArrayArg b) = Inr (Both a' b')"
    using assms a'(1) b'(1) by (simp add: shrink_def err_bind_def)
  have self: "shrink_shape x (shape x) = Inr x" for x
    using shrink_shape_props[of x "shape x"] by (auto simp: ndim_def)
  have again: "shrink_shape a' (shape b) = Inr a'"
    using shrink_shape_props[of a' "shape b"] a'(2) assms sa'
    by (auto simp: ndim_def)
  have pair: "shrink a' (ArrayArg b') = Inr (Both a' b')"
    using self[of a'] self[of b'] sb' a'(2) b'(2) assms
    by (simp add: shrink_def err_bind_def)
  show ?thesis using run sb' sa' self again pair
    by (simp add: shrink_def)
qed

theorem shrink_pair_shapes_equal_witness:
  "ndim (full [3, 4] 1) = ndim (full [5, 2] 2) \<and>
   (\<exists>a' b'. shrink (full [3, 4] 1) (ArrayArg (full [5, 2] 2)) = Inr (Both a' b')
          \<and> shape a' = shape b'
          \<and> shape a' = [3, 2])"
proof -
  have h: "ndim (full [3, 4] 1) = ndim (full [5, 2] 2)"
    by (simp add: ndim_def full_def)
  have s: "map2 min (shape (full [3, 4] 1)) (shape (full [5, 2] 2)) = [3, 2]"
    by (simp add: full_def)
  from shrink_pair_shapes_equal [OF h] obtain a' b' where
    "shrink (full [3, 4] 1) (ArrayArg (full [5, 2] 2)) = Inr (Both a' b')"
    "shape a' = shape b'"
    "shape a' = map2 min (shape (full [3, 4] 1)) (shape (full [5, 2] 2))"
    by blast
  then show ?thesis using h s by auto
qed

lemma shrink_while1_never_trims:
  "shape a = n # ds \<Longrightarrow> dm < n \<Longrightarrow> shrink_while1 a dm = shrink_while1 (avg0 a) dm"
  by (subst shrink_while1.simps) simp

text \<open>
  Claim C2. The claim: a 1-D array longer than the target by two or more is trimmed by one
  element at each end, as in the general case. The source tests \<^verbatim>\<open>(dim - a.shape[0]) >= 2\<close>
  inside \<^verbatim>\<open>while a.shape[0] > dim\<close>, a difference that is negative there, so the 1-D case
  never trims: it averages adjacent elements until the target length is reached. With
  \<open>[1, 2, 4, 8]\<close> and target 2 the source returns \<open>[2.25, 4.5]\<close>, not the trimmed \<open>[2, 4]\<close>.
\<close>

theorem shrink_1d_averages_instead_of_trimming:
  "map_sum id shrunk_lists (shrink (array1 [1, 2, 4, 8]) (IntArg 2)) = Inr [[9 / 4, 9 / 2]]
   \<and> to_list1 (trim0 (array1 [1, 2, 4, 8])) = [2, 4]"
  by code_simp

end
